theory Spec2Isabelle
  imports Complex_Main "HOL-Library.Sublist"
begin

section \<open>Data model (types.ts)\<close>

text \<open>
  A finite JavaScript \<^verbatim>\<open>number\<close> is modelled by the \<^typ>\<open>real\<close> it denotes; \<^verbatim>\<open>NaN\<close> and
  the infinities are not values of this type. Where the source can meet \<^verbatim>\<open>NaN\<close>, an
  infinity or a value that is no number (a parse result, an absent date bound, a quotient,
  a property of an object) the value gets a type of its own below. The sums, products,
  differences and quotients of the aggregates, the category chart and the export are the
  rounded ones of double arithmetic (\<open>double_add\<close> and its siblings below). A \<^verbatim>\<open>Date\<close> is
  its time value: milliseconds since 1970-01-01T00:00:00Z, as \<^verbatim>\<open>getTime()\<close> returns it
  (an invalid date is not a value of the type).
\<close>

record SaleRecord =
  id_field :: string
  date :: int
  category :: string
  product :: string
  region :: string
  sales :: real
  quantity :: real
  profit :: real

datatype Language = EN | PT | ES

datatype Currency = BRL | USD | ARS | PYG | UYU

section \<open>Array and object helpers of the language\<close>

text \<open>\<^verbatim>\<open>Array.prototype.includes\<close>, \<^verbatim>\<open>filter\<close>, \<^verbatim>\<open>reduce\<close> (with an initial value),
  \<^verbatim>\<open>slice\<close> (for indices \<open>0 \<le> start \<le> end\<close>) and \<^verbatim>\<open>join\<close>. Each returns a new
  value; none writes to the array it reads.\<close>

fun array_includes :: "'a list \<Rightarrow> 'a \<Rightarrow> bool" where
  "array_includes [] x = False"
| "array_includes (y # ys) x = (if y = x then True else array_includes ys x)"

fun array_filter :: "('a \<Rightarrow> bool) \<Rightarrow> 'a list \<Rightarrow> 'a list" where
  "array_filter p [] = []"
| "array_filter p (x # xs) = (if p x then x # array_filter p xs else array_filter p xs)"

fun reduce :: "('b \<Rightarrow> 'a \<Rightarrow> 'b) \<Rightarrow> 'b \<Rightarrow> 'a list \<Rightarrow> 'b" where
  "reduce f acc [] = acc"
| "reduce f acc (x # xs) = reduce f (f acc x) xs"

definition array_slice :: "nat \<Rightarrow> nat \<Rightarrow> 'a list \<Rightarrow> 'a list" where
  "array_slice start stop xs = take (stop - start) (drop start xs)"

fun join :: "string \<Rightarrow> string list \<Rightarrow> string" where
  "join sep [] = []"
| "join sep [x] = x"
| "join sep (x # y # ys) = x @ sep @ join sep (y # ys)"

text \<open>The own properties of a plain object used as a dictionary, in the order of their
  creation: writing an existing key keeps its place, writing a new key appends it.\<close>

type_synonym 'v js_object = "(string \<times> 'v) list"

fun obj_get :: "'v js_object \<Rightarrow> string \<Rightarrow> 'v option" where
  "obj_get [] k = None"
| "obj_get ((k', v) # kvs) k = (if k' = k then Some v else obj_get kvs k)"

fun obj_set :: "'v js_object \<Rightarrow> string \<Rightarrow> 'v \<Rightarrow> 'v js_object" where
  "obj_set [] k v = [(k, v)]"
| "obj_set ((k', v') # kvs) k v = (if k' = k then (k, v) # kvs else (k', v') # obj_set kvs k v)"

text \<open>Decimal digits.\<close>

definition digit_value :: "char \<Rightarrow> int option" where
  "digit_value c =
     map_of [(CHR ''0'', 0), (CHR ''1'', 1), (CHR ''2'', 2), (CHR ''3'', 3), (CHR ''4'', 4),
             (CHR ''5'', 5), (CHR ''6'', 6), (CHR ''7'', 7), (CHR ''8'', 8), (CHR ''9'', 9)] c"

fun digits_value :: "int \<Rightarrow> string \<Rightarrow> int option" where
  "digits_value acc [] = Some acc"
| "digits_value acc (c # cs) =
     (case digit_value c of None \<Rightarrow> None | Some d \<Rightarrow> digits_value (10 * acc + d) cs)"

text \<open>\<^verbatim>\<open>x || 0\<close> on a number that may be missing (\<^verbatim>\<open>undefined\<close>, \<^verbatim>\<open>NaN\<close>: \<open>None\<close>):
  the falsy values, zero among them, give 0.\<close>

definition or_zero :: "real option \<Rightarrow> real" where
  "or_zero x = (case x of None \<Rightarrow> 0 | Some v \<Rightarrow> (if v = 0 then 0 else v))"

text \<open>\<^verbatim>\<open>Array.prototype.sort\<close> with a comparator: the sort is stable, an element goes
  before the first element the comparator does not put ahead of it.\<close>

fun sort_insert :: "('a \<Rightarrow> 'a \<Rightarrow> real) \<Rightarrow> 'a \<Rightarrow> 'a list \<Rightarrow> 'a list" where
  "sort_insert cmp x [] = [x]"
| "sort_insert cmp x (y # ys) =
     (if cmp x y \<le> 0 then x # y # ys else y # sort_insert cmp x ys)"

fun array_sort :: "('a \<Rightarrow> 'a \<Rightarrow> real) \<Rightarrow> 'a list \<Rightarrow> 'a list" where
  "array_sort cmp [] = []"
| "array_sort cmp (x # xs) = sort_insert cmp x (array_sort cmp xs)"

text \<open>\<^verbatim>\<open>Math.max(...xs, z)\<close> and \<^verbatim>\<open>Math.min(...xs, z)\<close>: the running extreme over the
  arguments, the last of which is \<open>z\<close>. (The engine's limit on the number of arguments of
  one call is not modelled.)\<close>

fun Math_max :: "real list \<Rightarrow> real \<Rightarrow> real" where
  "Math_max [] z = z"
| "Math_max (x # xs) z = (let m = Math_max xs z in if x > m then x else m)"

fun Math_min :: "real list \<Rightarrow> real \<Rightarrow> real" where
  "Math_min [] z = z"
| "Math_min (x # xs) z = (let m = Math_min xs z in if x < m then x else m)"

section \<open>Double arithmetic\<close>

text \<open>The result of an arithmetic operation on doubles is the exact result rounded to the
  nearest double, ties to the even significand. \<open>fl\<close> rounds a real to 53 significant
  bits: \<open>fl_norm\<close> scales a positive number into the range from \<open>2 ^ 52\<close> up to \<open>2 ^ 53\<close>,
  where the doubles are the integers, rounds there and scales back; its first argument
  bounds the number of scalings, and 2200 of them reach every finite double. This is the
  double result as long as that result is finite and, for products and quotients, not
  below the normal range (overflow to an infinity and gradual underflow are not
  modelled).\<close>

definition round_even :: "real \<Rightarrow> int" where
  "round_even x =
     (let f = \<lfloor>x\<rfloor>; d = x - of_int f
      in if d < 1 / 2 then f else if d > 1 / 2 then f + 1 else if even f then f else f + 1)"

fun fl_norm :: "nat \<Rightarrow> real \<Rightarrow> real" where
  "fl_norm 0 x = x"
| "fl_norm (Suc n) x =
     (if x < 4503599627370496 then fl_norm n (x * 2) / 2
      else if 9007199254740992 \<le> x then fl_norm n (x / 2) * 2
      else of_int (round_even x))"

definition fl :: "real \<Rightarrow> real" where
  "fl x = (if x = 0 then 0 else if x > 0 then fl_norm 2200 x else - fl_norm 2200 (- x))"

definition double_add :: "real \<Rightarrow> real \<Rightarrow> real" where
  "double_add x y = fl (x + y)"

definition double_sub :: "real \<Rightarrow> real \<Rightarrow> real" where
  "double_sub x y = fl (x - y)"

definition double_mul :: "real \<Rightarrow> real \<Rightarrow> real" where
  "double_mul x y = fl (x * y)"


text \<open>A value as a property read, an operator or a quotient can produce it: a finite
  number, \<^verbatim>\<open>NaN\<close>, an infinity, \<^verbatim>\<open>undefined\<close>, a non-empty string (\<open>Text\<close>: its
  characters play no part in what follows), or a function or object inherited from
  \<^verbatim>\<open>Object.prototype\<close> (\<open>Member\<close>).\<close>

datatype js_value =
  Num real | NotANumber | PositiveInfinity | NegativeInfinity | Undefined | Text | Member

text \<open>\<^verbatim>\<open>x / n\<close> for a finite \<open>x\<close> and a count \<open>n\<close> (a non-negative number, so a zero
  divisor is \<open>+0\<close>).\<close>

definition double_div :: "real \<Rightarrow> real \<Rightarrow> js_value" where
  "double_div x n =
     (if n = 0 then
        (if x = 0 then NotANumber else if x > 0 then PositiveInfinity else NegativeInfinity)
      else Num (fl (x / n)))"

text \<open>\<^verbatim>\<open>x || 0\<close>: the falsy values (\<^verbatim>\<open>undefined\<close>, zero, \<^verbatim>\<open>NaN\<close>) give 0, every other
  value itself.\<close>

fun or_zero_value :: "js_value \<Rightarrow> js_value" where
  "or_zero_value Undefined = Num 0"
| "or_zero_value NotANumber = Num 0"
| "or_zero_value (Num v) = (if v = 0 then Num 0 else Num v)"
| "or_zero_value x = x"

text \<open>\<^verbatim>\<open>x + n\<close> for a finite number \<open>n\<close>: a number is added; a string, a function or an
  object is turned into text and the text of \<open>n\<close> appended.\<close>

fun plus_number :: "js_value \<Rightarrow> real \<Rightarrow> js_value" where
  "plus_number (Num v) n = Num (double_add v n)"
| "plus_number NotANumber n = NotANumber"
| "plus_number Undefined n = NotANumber"
| "plus_number PositiveInfinity n = PositiveInfinity"
| "plus_number NegativeInfinity n = NegativeInfinity"
| "plus_number Text n = Text"
| "plus_number Member n = Text"

text \<open>\<^verbatim>\<open>x * n\<close> for a finite number \<open>n\<close>, where \<open>x\<close> is a finite number or a text that is
  not the text of a number (the texts that arise above start with the text of a function
  or object).\<close>

fun times_number :: "js_value \<Rightarrow> real \<Rightarrow> js_value" where
  "times_number (Num v) n = Num (double_mul v n)"
| "times_number x n = NotANumber"

text \<open>An object created by \<^verbatim>\<open>{}\<close> inherits from \<^verbatim>\<open>Object.prototype\<close>. Reading a key
  that is no own property finds the inherited member of that name, if there is one.
  Writing a key creates or updates the own property, except for \<^verbatim>\<open>__proto__\<close>: that
  name is an accessor of the prototype, reading it gives the prototype object, and
  writing a value that is no object to it does nothing (the values written below are
  numbers and texts).\<close>

definition Object_prototype_keys :: "string list" where
  "Object_prototype_keys =
     [''constructor'', ''__defineGetter__'', ''__defineSetter__'', ''hasOwnProperty'',
      ''__lookupGetter__'', ''__lookupSetter__'', ''isPrototypeOf'', ''propertyIsEnumerable'',
      ''toString'', ''valueOf'', ''__proto__'', ''toLocaleString'']"

definition prop_get :: "js_value js_object \<Rightarrow> string \<Rightarrow> js_value" where
  "prop_get obj k =
     (if k = ''__proto__'' then Member
      else (case obj_get obj k of
              Some v \<Rightarrow> v
            | None \<Rightarrow> if array_includes Object_prototype_keys k then Member else Undefined))"

definition prop_set :: "js_value js_object \<Rightarrow> string \<Rightarrow> js_value \<Rightarrow> js_value js_object" where
  "prop_set obj k v = (if k = ''__proto__'' then obj else obj_set obj k v)"

text \<open>\<^verbatim>\<open>Object.entries\<close> lists the own properties whose key is an array index (the
  decimal text, without leading zero, of a number below \<open>2 ^ 32 - 1\<close>) first, in ascending
  order of the index, and then the other ones in the order of their creation.\<close>

definition array_index :: "string \<Rightarrow> int option" where
  "array_index k =
     (case k of
        [] \<Rightarrow> None
      | c # cs \<Rightarrow>
          if c = CHR ''0'' \<and> cs \<noteq> [] then None
          else (case digits_value 0 k of
                  None \<Rightarrow> None
                | Some n \<Rightarrow> if n < 4294967295 then Some n else None))"

definition index_or_zero :: "string \<Rightarrow> real" where
  "index_or_zero k = (case array_index k of None \<Rightarrow> 0 | Some n \<Rightarrow> real_of_int n)"

definition Object_entries :: "'v js_object \<Rightarrow> (string \<times> 'v) list" where
  "Object_entries obj =
     array_sort (\<lambda>a b. index_or_zero (fst a) - index_or_zero (fst b))
       (filter (\<lambda>kv. array_index (fst kv) \<noteq> None) obj)
     @ filter (\<lambda>kv. array_index (fst kv) = None) obj"


section \<open>dataService.filterData\<close>

definition filterData :: "SaleRecord list \<Rightarrow> string list \<Rightarrow> string list \<Rightarrow> SaleRecord list" where
  "filterData data selectedRegions selectedCategories =
     array_filter (\<lambda>item.
       let regionMatch = (length selectedRegions = 0 \<or> array_includes selectedRegions (region item));
           categoryMatch = (length selectedCategories = 0 \<or> array_includes selectedCategories (category item))
       in regionMatch \<and> categoryMatch) data"

section \<open>App: exchange rates, conversion factor, metrics\<close>

text \<open>The rate table has one entry per non-base currency; the base currency BRL has
  none (\<^verbatim>\<open>rates['BRL']\<close> is not a property of the object, and the source reads the
  table only after it has ruled BRL out).\<close>

record Rates =
  rate_USD :: real
  rate_ARS :: real
  rate_PYG :: real
  rate_UYU :: real

definition initial_rates :: Rates where
  "initial_rates = \<lparr>rate_USD = 5.75, rate_ARS = 215, rate_PYG = 1400, rate_UYU = 7.6\<rparr>"

fun rates_get :: "Rates \<Rightarrow> Currency \<Rightarrow> real" where
  "rates_get rates USD = rate_USD rates"
| "rates_get rates ARS = rate_ARS rates"
| "rates_get rates PYG = rate_PYG rates"
| "rates_get rates UYU = rate_UYU rates"

text \<open>\<^verbatim>\<open>{...prev, [currency]: v}\<close>. Under the key BRL the four rates stay as they are
  (the source shows the input only when the currency is not BRL).\<close>

fun rates_set :: "Rates \<Rightarrow> Currency \<Rightarrow> real \<Rightarrow> Rates" where
  "rates_set prev USD v = prev\<lparr>rate_USD := v\<rparr>"
| "rates_set prev ARS v = prev\<lparr>rate_ARS := v\<rparr>"
| "rates_set prev PYG v = prev\<lparr>rate_PYG := v\<rparr>"
| "rates_set prev UYU v = prev\<lparr>rate_UYU := v\<rparr>"
| "rates_set prev BRL v = prev"

text \<open>The division is the real one; it agrees with the source wherever the USD rate
  is not zero, which \<open>rate_onChange\<close> below guarantees for every rate it stores.\<close>

definition conversionFactor :: "Currency \<Rightarrow> Rates \<Rightarrow> real" where
  "conversionFactor currency rates =
     (if currency = BRL then 1
      else if currency = USD then 1 / rate_USD rates
      else rates_get rates currency)"

text \<open>The rate input's \<^verbatim>\<open>onChange\<close>:
  \<^verbatim>\<open>setRates(prev => ({...prev, [currency]: Math.max(0.0001, parseFloat(e.target.value) || 0)}))\<close>.
  \<^verbatim>\<open>parseFloat\<close> is the language's builtin and a parameter here: \<open>None\<close> stands for
  \<^verbatim>\<open>NaN\<close>, \<open>Some v\<close> for a finite number.\<close>

definition newRate :: "(string \<Rightarrow> real option) \<Rightarrow> string \<Rightarrow> real" where
  "newRate parseFloat v = max 0.0001 (or_zero (parseFloat v))"

definition rate_onChange :: "(string \<Rightarrow> real option) \<Rightarrow> Rates \<Rightarrow> Currency \<Rightarrow> string \<Rightarrow> Rates" where
  "rate_onChange parseFloat prev currency v = rates_set prev currency (newRate parseFloat v)"

text \<open>The aggregates. The sums are finite numbers; the average is a quotient, which as
  such could be \<^verbatim>\<open>NaN\<close> or infinite.\<close>

record Metrics =
  totalSales :: real
  totalQuantity :: real
  totalProfit :: real
  avgTicket :: js_value

definition metrics :: "SaleRecord list \<Rightarrow> Metrics" where
  "metrics filteredData =
     \<lparr>totalSales = reduce (\<lambda>sum item. double_add sum (sales item)) 0 filteredData,
      totalQuantity = reduce (\<lambda>sum item. double_add sum (quantity item)) 0 filteredData,
      totalProfit = reduce (\<lambda>sum item. double_add sum (profit item)) 0 filteredData,
      avgTicket = (if length filteredData > 0
                   then double_div (reduce (\<lambda>sum item. double_add sum (sales item)) 0 filteredData)
                          (real (length filteredData))
                   else Num 0)\<rparr>"

section \<open>Platform functions the components call\<close>

text \<open>The translation tables (\<^verbatim>\<open>utils/translations\<close>) and the formatting builtins
  (\<^verbatim>\<open>Intl.DateTimeFormat\<close>, \<^verbatim>\<open>Number.prototype.toFixed\<close>, the conversion of a number
  to a string) are parameters: \<open>headers env lang\<close> is the list
  \<^verbatim>\<open>[t.colDate, t.colCat, t.colProd, t.colReg, t.colSales, t.colQty, t.colProfit]\<close> of
  \<^verbatim>\<open>t = getTranslation(lang)\<close>.\<close>

record Env =
  getDataTranslation :: "string \<Rightarrow> Language \<Rightarrow> string"
  headers :: "Language \<Rightarrow> string list"
  formatDate :: "int \<Rightarrow> string \<Rightarrow> string"
  toFixed :: "real \<Rightarrow> nat \<Rightarrow> string"
  numberToString :: "real \<Rightarrow> string"

section \<open>ChartsSection: sales by category\<close>

record CategoryEntry =
  name :: string
  originalName :: string
  value_field :: js_value

text \<open>\<open>grouped\<close>: the accumulator starts as \<^verbatim>\<open>{}\<close>, and each record does
  \<^verbatim>\<open>acc[curr.category] = (acc[curr.category] || 0) + curr.sales\<close>.\<close>

definition grouped_by_category :: "SaleRecord list \<Rightarrow> js_value js_object" where
  "grouped_by_category data =
     reduce (\<lambda>acc curr.
       prop_set acc (category curr)
         (plus_number (or_zero_value (prop_get acc (category curr))) (sales curr))) [] data"

text \<open>The comparator \<^verbatim>\<open>(a, b) => b.value - a.value\<close>. The sort reads a comparator result
  \<^verbatim>\<open>NaN\<close> as 0. (With such a result the comparator is no consistent order and the order
  of the result is the engine's choice; the model then gives one such order.)\<close>

definition compare_value :: "CategoryEntry \<Rightarrow> CategoryEntry \<Rightarrow> real" where
  "compare_value a b =
     (case (value_field b, value_field a) of
        (Num y, Num x) \<Rightarrow> double_sub y x
      | _ \<Rightarrow> 0)"

definition categoryData :: "Env \<Rightarrow> SaleRecord list \<Rightarrow> Language \<Rightarrow> real \<Rightarrow> CategoryEntry list" where
  "categoryData env data lang factor =
     array_sort compare_value
       (map (\<lambda>(k, v). \<lparr>name = getDataTranslation env k lang, originalName = k,
                        value_field = times_number v factor\<rparr>)
          (Object_entries (grouped_by_category data)))"

section \<open>The platform's Date, as far as DataGrid uses it\<close>

text \<open>\<^verbatim>\<open>new Date(s)\<close> on the value of a date input, the date-only form
  \<^verbatim>\<open>YYYY-MM-DD\<close>: ECMAScript reads a date-only form as UTC, so the time value is midnight
  UTC of that day. \<open>None\<close> is the invalid date (time value \<^verbatim>\<open>NaN\<close>); other formats are
  not produced by the input and are read as invalid here.\<close>

definition msPerDay :: int where
  "msPerDay = 86400000"

definition DaysInMonth :: "int \<Rightarrow> int \<Rightarrow> int" where
  "DaysInMonth y m =
     (if m = 2 then (if y mod 4 = 0 \<and> (y mod 100 \<noteq> 0 \<or> y mod 400 = 0) then 29 else 28)
      else if m = 4 \<or> m = 6 \<or> m = 9 \<or> m = 11 then 30 else 31)"

text \<open>The day number of a calendar date, counted from 1970-01-01.\<close>

definition MakeDay :: "int \<Rightarrow> int \<Rightarrow> int \<Rightarrow> int" where
  "MakeDay y m d =
     (let y' = (if m \<le> 2 then y - 1 else y);
          era = y' div 400;
          yoe = y' - era * 400;
          doy = (153 * (if m > 2 then m - 3 else m + 9) + 2) div 5 + d - 1;
          doe = yoe * 365 + yoe div 4 - yoe div 100 + doy
      in era * 146097 + doe - 719468)"

definition new_Date :: "string \<Rightarrow> int option" where
  "new_Date s =
     (if length s = 10 \<and> s ! 4 = CHR ''-'' \<and> s ! 7 = CHR ''-'' then
        (case (digits_value 0 (take 4 s), digits_value 0 (take 2 (drop 5 s)),
               digits_value 0 (drop 8 s)) of
           (Some y, Some m, Some d) \<Rightarrow>
             (if 1 \<le> m \<and> m \<le> 12 \<and> 1 \<le> d \<and> d \<le> DaysInMonth y m
              then Some (MakeDay y m d * msPerDay) else None)
         | _ \<Rightarrow> None)
      else None)"

text \<open>A timestamp as the comparison sees it: a time value, \<^verbatim>\<open>-Infinity\<close>,
  \<^verbatim>\<open>Infinity\<close> or \<^verbatim>\<open>NaN\<close>; \<open>ge_bound t b\<close> is \<^verbatim>\<open>t >= b\<close> and \<open>le_bound t b\<close> is
  \<^verbatim>\<open>t <= b\<close> for a finite \<open>t\<close>.\<close>

datatype bound = NegInfinity | Time int | PosInfinity | NaN

fun ge_bound :: "int \<Rightarrow> bound \<Rightarrow> bool" where
  "ge_bound t NegInfinity = True"
| "ge_bound t (Time b) = (t \<ge> b)"
| "ge_bound t PosInfinity = False"
| "ge_bound t NaN = False"

fun le_bound :: "int \<Rightarrow> bound \<Rightarrow> bool" where
  "le_bound t NegInfinity = False"
| "le_bound t (Time b) = (t \<le> b)"
| "le_bound t PosInfinity = True"
| "le_bound t NaN = False"

text \<open>\<^verbatim>\<open>Date.prototype.setHours(h, m, s, ms)\<close> works in local time: it keeps the local
  calendar day of the time value and replaces the time within that day, and returns the
  new time value. The local zone is the parameter \<open>tz\<close>, its offset from UTC in
  milliseconds (local time = UTC + \<open>tz\<close>; a zone without daylight-saving changes).\<close>

definition MakeTime :: "int \<Rightarrow> int \<Rightarrow> int \<Rightarrow> int \<Rightarrow> int" where
  "MakeTime h m s ms = h * 3600000 + m * 60000 + s * 1000 + ms"

definition setHours :: "int \<Rightarrow> int option \<Rightarrow> int \<Rightarrow> int \<Rightarrow> int \<Rightarrow> int \<Rightarrow> bound" where
  "setHours tz d h m s ms =
     (case d of
        None \<Rightarrow> NaN
      | Some t \<Rightarrow>
          (let localTime = t + tz;
               day = localTime div msPerDay
           in Time (day * msPerDay + MakeTime h m s ms - tz)))"

section \<open>DataGrid\<close>

datatype SortKey =
  Key_id | Key_date | Key_category | Key_product | Key_region | Key_sales | Key_quantity | Key_profit

datatype Direction = asc | desc

record SortConfig =
  key :: SortKey
  direction :: Direction

text \<open>\<open>handleSort\<close> returns the state it sets. The state is \<open>None\<close> before the first
  selection (\<^verbatim>\<open>null\<close>); \<^verbatim>\<open>!sortConfig || sortConfig.key !== key\<close> is
  \<open>map_option key sortConfig \<noteq> Some k\<close>.\<close>

definition handleSort :: "SortConfig option \<Rightarrow> SortKey \<Rightarrow> SortConfig option" where
  "handleSort sortConfig k =
     (let d =
        (if map_option key sortConfig \<noteq> Some k then
           (if array_includes [Key_sales, Key_profit, Key_quantity, Key_date] k then desc else asc)
         else
           (if map_option direction sortConfig = Some asc then desc else asc))
      in Some \<lparr>key = k, direction = d\<rparr>)"

text \<open>The date-range filter. An empty string is the absent bound.\<close>

definition filteredByDateData :: "int \<Rightarrow> SaleRecord list \<Rightarrow> string \<Rightarrow> string \<Rightarrow> SaleRecord list" where
  "filteredByDateData tz data startDate endDate =
     (if startDate = [] \<and> endDate = [] then data
      else
        (let startTs = (if startDate \<noteq> [] then setHours tz (new_Date startDate) 0 0 0 0
                        else NegInfinity);
             endTs = (if endDate \<noteq> [] then setHours tz (new_Date endDate) 23 59 59 999
                      else PosInfinity)
         in array_filter (\<lambda>item.
              let itemTs = date item in ge_bound itemTs startTs \<and> le_bound itemTs endTs) data))"

text \<open>The heatmap statistics, computed from the ordered set \<open>sortedData\<close>.\<close>

definition maxSales :: "SaleRecord list \<Rightarrow> real" where
  "maxSales sortedData = Math_max (map sales sortedData) 0"

definition minSales :: "SaleRecord list \<Rightarrow> real" where
  "minSales sortedData = Math_min (map sales sortedData) 0"

definition maxProfit :: "SaleRecord list \<Rightarrow> real" where
  "maxProfit sortedData = Math_max (map profit sortedData) 0"

text \<open>The table body: one row per record of \<^verbatim>\<open>sortedData.slice(0, 100)\<close>, or the single
  placeholder row when there is no record.\<close>

datatype TableRow = DataRow SaleRecord | NoDataRow

definition tbody :: "SaleRecord list \<Rightarrow> TableRow list" where
  "tbody sortedData =
     (if length sortedData > 0 then map DataRow (array_slice 0 100 sortedData)
      else [NoDataRow])"

fun row_record :: "TableRow \<Rightarrow> SaleRecord list" where
  "row_record (DataRow r) = [r]"
| "row_record NoDataRow = []"

definition displayedRecords :: "SaleRecord list \<Rightarrow> SaleRecord list" where
  "displayedRecords sortedData = concat (map row_record (tbody sortedData))"

text \<open>The CSV export: \<open>csvRow\<close> is the array built for one record, \<open>csvContent\<close> the
  text handed to the download link (before \<^verbatim>\<open>encodeURI\<close>).\<close>

definition locale_of :: "Currency \<Rightarrow> string" where
  "locale_of currency =
     (if currency = BRL then ''pt-BR'' else if currency = ARS then ''es-AR''
      else if currency = PYG then ''es-PY'' else if currency = UYU then ''es-UY''
      else ''en-US'')"

definition csvRow :: "Env \<Rightarrow> Language \<Rightarrow> Currency \<Rightarrow> real \<Rightarrow> SaleRecord \<Rightarrow> string list" where
  "csvRow env lang currency factor row =
     [formatDate env (date row) (locale_of currency),
      getDataTranslation env (category row) lang,
      product row,
      getDataTranslation env (region row) lang,
      toFixed env (double_mul (sales row) factor) 2,
      numberToString env (quantity row),
      toFixed env (double_mul (profit row) factor) 2]"

definition csvRows :: "Env \<Rightarrow> Language \<Rightarrow> Currency \<Rightarrow> real \<Rightarrow> SaleRecord list \<Rightarrow> string list list" where
  "csvRows env lang currency factor sortedData = map (csvRow env lang currency factor) sortedData"

definition csvContent :: "Env \<Rightarrow> Language \<Rightarrow> Currency \<Rightarrow> real \<Rightarrow> SaleRecord list \<Rightarrow> string" where
  "csvContent env lang currency factor sortedData =
     ''data:text/csv;charset=utf-8,'' @
     join [CHR 0x0A]
       (join '','' (headers env lang) # map (join '','') (csvRows env lang currency factor sortedData))"

text \<open>The text of the line of one record, as the export joins it.\<close>

definition csvLine :: "Env \<Rightarrow> Language \<Rightarrow> Currency \<Rightarrow> real \<Rightarrow> SaleRecord \<Rightarrow> string" where
  "csvLine env lang currency factor row = join '','' (csvRow env lang currency factor row)"

section \<open>A decimal reading of parseFloat, and sample data\<close>

text \<open>\<open>parseFloat_decimal\<close> reads what \<^verbatim>\<open>parseFloat\<close> reads of a decimal literal: leading
  white space, a sign, digits, a fraction, an exponent, then anything; no digit at all is
  \<^verbatim>\<open>NaN\<close>. Its value is the exact decimal. (The literal \<^verbatim>\<open>Infinity\<close> has no value among the
  reals and is read as no number.) The results about \<open>newRate\<close> hold for every parse function;
  this one supplies concrete inputs.\<close>

definition isStrWhiteSpaceChar :: "char \<Rightarrow> bool" where
  "isStrWhiteSpaceChar c =
     (c \<in> set [CHR 0x09, CHR 0x0A, CHR 0x0B, CHR 0x0C, CHR 0x0D, CHR '' ''])"

definition isDigit :: "char \<Rightarrow> bool" where
  "isDigit c = (digit_value c \<noteq> None)"

definition digits_or_zero :: "string \<Rightarrow> int" where
  "digits_or_zero s = (case digits_value 0 s of None \<Rightarrow> 0 | Some n \<Rightarrow> n)"

definition take_sign :: "string \<Rightarrow> bool \<times> string" where
  "take_sign s =
     (case s of
        [] \<Rightarrow> (False, [])
      | c # r \<Rightarrow> if c = CHR ''-'' then (True, r)
                 else if c = CHR ''+'' then (False, r) else (False, s))"

definition scale10 :: "real \<Rightarrow> int \<Rightarrow> real" where
  "scale10 x e = (if e \<ge> 0 then x * 10 ^ nat e else x / 10 ^ nat (- e))"

definition parseFloat_decimal :: "string \<Rightarrow> real option" where
  "parseFloat_decimal s =
     (let (neg, u) = take_sign (dropWhile isStrWhiteSpaceChar s);
          ip = takeWhile isDigit u;
          r1 = dropWhile isDigit u;
          (fp, r2) = (case r1 of
                        [] \<Rightarrow> ([], [])
                      | c # r \<Rightarrow> if c = CHR ''.'' then (takeWhile isDigit r, dropWhile isDigit r)
                                 else ([], r1));
          ex = (case r2 of
                  [] \<Rightarrow> 0
                | c # r \<Rightarrow>
                    if c = CHR ''e'' \<or> c = CHR ''E'' then
                      (let (eneg, r3) = take_sign r; ed = takeWhile isDigit r3
                       in if eneg then - digits_or_zero ed else digits_or_zero ed)
                    else 0)
      in if ip = [] \<and> fp = [] then None
         else Some (scale10 ((if neg then - 1 else 1) * real_of_int (digits_or_zero (ip @ fp))
                              / 10 ^ length fp) ex))"

text \<open>Every rate of the table is at least the clamp's minimum.\<close>

definition rates_clamped :: "Rates \<Rightarrow> bool" where
  "rates_clamped rates =
     (0.0001 \<le> rate_USD rates \<and> 0.0001 \<le> rate_ARS rates
      \<and> 0.0001 \<le> rate_PYG rates \<and> 0.0001 \<le> rate_UYU rates)"

text \<open>The two records of the specification's example, dated 2024-03-09T15:00:00Z and
  2024-03-10T15:00:00Z.\<close>

definition example_north :: SaleRecord where
  "example_north =
     \<lparr>id_field = ''a'', date = 1709996400000, category = ''Electronics'', product = ''Product 1'',
      region = ''North'', sales = 100, quantity = 2, profit = 30\<rparr>"

definition example_south :: SaleRecord where
  "example_south =
     \<lparr>id_field = ''b'', date = 1710082800000, category = ''Food'', product = ''Product 2'',
      region = ''South'', sales = 50, quantity = 1, profit = - 5\<rparr>"




text \<open>An environment for the example records: the translation is the identity, and the
  formatters print the dates and numbers of those records.\<close>

definition example_env :: Env where
  "example_env =
     \<lparr>getDataTranslation = (\<lambda>s lang. s),
      headers = (\<lambda>lang. [''Date'', ''Category'', ''Product'', ''Region'', ''Sales'', ''Qty'', ''Profit'']),
      formatDate = (\<lambda>d locale. if d = 1709996400000 then ''09 Mar 2024''
                                 else if d = 1710082800000 then ''10 Mar 2024'' else ''another day''),
      toFixed = (\<lambda>x digits. if x = 100 then ''100.00'' else if x = 50 then ''50.00''
                              else if x = 30 then ''30.00'' else if x = - 5 then ''-5.00''
                              else ''another amount''),
      numberToString = (\<lambda>x. if x = 1 then ''1'' else if x = 2 then ''2'' else ''another number'')\<rparr>"

section \<open>Helper lemmas\<close>

lemma array_includes_set: "array_includes xs x = (x \<in> set xs)"
  by (induction xs) auto

lemma array_filter_filter: "array_filter p xs = filter p xs"
  by (induction xs) auto

section \<open>Rounding\<close>









text \<open>Small integers are doubles.\<close>

lemma fl_examples: "fl 100 = 100" "fl 150 = 150" "fl 75 = 75" "fl 200 = 200" "fl 50 = 50"
  "fl 30 = 30" "fl 25 = 25" "fl (- 5) = - 5" "fl 1 = 1" "fl 2 = 2" "fl 3 = 3" "fl (- 10) = - 10"
  "fl 60 = 60" "fl (- 100) = - 100" "fl (- 50) = - 50"
  by (simp_all add: fl_def eval_nat_numeral round_even_def)

section \<open>The region and category filter\<close>

text \<open>Claim C1: \<open>filterData\<close> returns exactly the records, in their original order, whose
  region is selected (or no region is selected) and whose category is selected (or no
  category is selected). The result is a subsequence of the input, each of its elements
  passes the predicate, its elements are among the input's, the empty selections return
  the input, and the empty input returns the empty list. The function builds a new list
  and leaves its argument as it is.\<close>

theorem filterData_spec:
  "filterData R A B =
     filter (\<lambda>r. (A = [] \<or> region r \<in> set A) \<and> (B = [] \<or> category r \<in> set B)) R
   \<and> subseq (filterData R A B) R
   \<and> list_all (\<lambda>r. (A = [] \<or> region r \<in> set A) \<and> (B = [] \<or> category r \<in> set B))
        (filterData R A B)
   \<and> set (filterData R A B) \<subseteq> set R
   \<and> filterData R [] [] = R
   \<and> filterData [] A B = []"
proof -
  let ?passes = "\<lambda>r. (A = [] \<or> region r \<in> set A) \<and> (B = [] \<or> category r \<in> set B)"
  have exact: "filterData R A B = filter ?passes R"
    by (simp add: filterData_def array_filter_filter array_includes_set)
  have "subseq (filter ?passes R) R"
    by simp
  moreover have "list_all ?passes (filter ?passes R)"
    by (simp add: list_all_iff)
  moreover have "set (filter ?passes R) \<subseteq> set R"
    by auto
  moreover have "filterData R [] [] = R"
    by (simp add: filterData_def array_filter_filter)
  moreover have "filterData [] A B = []"
    by (simp add: filterData_def)
  ultimately show ?thesis
    by (simp only: exact simp_thms)
qed

text \<open>The specification's example: selecting the region North keeps the first record only,
  whose sales total 100.\<close>

lemma filterData_example:
  "filterData [example_north, example_south] [''North''] [] = [example_north]
   \<and> totalSales (metrics (filterData [example_north, example_south] [''North''] [])) = 100"
  by (simp add: filterData_def metrics_def double_add_def fl_examples example_north_def
      example_south_def)

text \<open>Claim C9: filtering a filtered list again with the same selections changes nothing.\<close>

theorem filterData_idempotent:
  "filterData (filterData R A B) A B = filterData R A B"
  by (simp add: filterData_def array_filter_filter)

section \<open>Conversion factor and rate input\<close>



text \<open>Claim C6: the rate stored on a change of the rate input is the maximum of 0.0001 and
  the parsed value, a value that does not parse counting as 0. It is therefore at least
  0.0001 and strictly positive; an input that parses to -5 and an input that does not parse
  both store exactly 0.0001. The stored entry is the one of the selected currency.\<close>

theorem newRate_clamped:
  "newRate parseFloat v = max 0.0001 (case parseFloat v of None \<Rightarrow> 0 | Some x \<Rightarrow> x)
   \<and> 0.0001 \<le> newRate parseFloat v
   \<and> 0 < newRate parseFloat v
   \<and> (parseFloat v = None \<longrightarrow> newRate parseFloat v = 0.0001)
   \<and> (parseFloat v = Some (- 5) \<longrightarrow> newRate parseFloat v = 0.0001)
   \<and> (currency \<noteq> BRL \<longrightarrow>
        rates_get (rate_onChange parseFloat prev currency v) currency = newRate parseFloat v)"
proof -
  have clamp: "newRate parseFloat v = max 0.0001 (case parseFloat v of None \<Rightarrow> 0 | Some x \<Rightarrow> x)"
    by (simp add: newRate_def or_zero_def split: option.splits)
  have stored: "currency \<noteq> BRL \<Longrightarrow>
      rates_get (rate_onChange parseFloat prev currency v) currency = newRate parseFloat v"
    by (cases currency) (simp_all add: rate_onChange_def)
  from clamp stored show ?thesis
    by (auto split: option.splits)
qed

lemma parseFloat_decimal_minus_5: "parseFloat_decimal ''-5'' = Some (- 5)"
  by (simp add: parseFloat_decimal_def take_sign_def isStrWhiteSpaceChar_def isDigit_def
      digit_value_def digits_or_zero_def scale10_def)

lemma parseFloat_decimal_text: "parseFloat_decimal ''abc'' = None"
  by (simp add: parseFloat_decimal_def take_sign_def isStrWhiteSpaceChar_def isDigit_def
      digit_value_def digits_or_zero_def scale10_def)

theorem newRate_clamped_witness:
  "parseFloat_decimal ''-5'' = Some (- 5)
   \<and> newRate parseFloat_decimal ''-5'' = 0.0001
   \<and> parseFloat_decimal ''abc'' = None
   \<and> newRate parseFloat_decimal ''abc'' = 0.0001
   \<and> USD \<noteq> BRL
   \<and> rates_get (rate_onChange parseFloat_decimal initial_rates USD ''-5'') USD = 0.0001"
  using newRate_clamped [of parseFloat_decimal "''-5''" USD initial_rates]
    newRate_clamped [of parseFloat_decimal "''abc''" USD initial_rates]
  by (simp add: parseFloat_decimal_minus_5 parseFloat_decimal_text)

text \<open>The clamp keeps every table the handler can produce free of zero rates, so the
  division in \<open>conversionFactor\<close> never meets a zero divisor and every factor is positive.\<close>

lemma rates_clamped_initial: "rates_clamped initial_rates"
  by (simp add: rates_clamped_def initial_rates_def)

lemma rates_clamped_onChange:
  assumes "rates_clamped prev"
  shows "rates_clamped (rate_onChange parseFloat prev currency v)"
proof -
  have "0.0001 \<le> newRate parseFloat v"
    by (simp add: newRate_def)
  with assms show ?thesis
    by (cases currency) (simp_all add: rates_clamped_def rate_onChange_def)
qed

lemma conversionFactor_positive:
  assumes "rates_clamped rates"
  shows "0 < conversionFactor currency rates"
  using assms by (cases currency) (simp_all add: rates_clamped_def conversionFactor_def)

section \<open>Aggregated metrics\<close>

text \<open>Claim C5: with at least one record the average ticket is the quotient of
  \<open>totalSales\<close> by the number of records, a finite number (the double nearest to the exact
  quotient). With no record it is the number 0: the quotient, which would be \<^verbatim>\<open>NaN\<close> for
  the empty set, is not taken. On the empty set every aggregate is 0.\<close>

theorem metrics_avgTicket:
  "(length filteredData > 0 \<longrightarrow>
      avgTicket (metrics filteredData)
        = double_div (totalSales (metrics filteredData)) (real (length filteredData))
    \<and> avgTicket (metrics filteredData)
        = Num (fl (totalSales (metrics filteredData) / real (length filteredData))))
   \<and> (length filteredData = 0 \<longrightarrow> avgTicket (metrics filteredData) = Num 0)
   \<and> double_div (totalSales (metrics [])) (real (length ([] :: SaleRecord list))) = NotANumber
   \<and> metrics [] = \<lparr>totalSales = 0, totalQuantity = 0, totalProfit = 0, avgTicket = Num 0\<rparr>"
proof -
  have some: "avgTicket (metrics filteredData)
      = double_div (totalSales (metrics filteredData)) (real (length filteredData))"
    if "length filteredData > 0"
    using that by (simp add: metrics_def)
  have finite: "double_div (totalSales (metrics filteredData)) (real (length filteredData))
      = Num (fl (totalSales (metrics filteredData) / real (length filteredData)))"
    if "length filteredData > 0"
    using that by (simp add: double_div_def)
  have none: "avgTicket (metrics filteredData) = Num 0" if "length filteredData = 0"
    using that by (simp add: metrics_def)
  have empty: "metrics [] = \<lparr>totalSales = 0, totalQuantity = 0, totalProfit = 0, avgTicket = Num 0\<rparr>"
    by (simp add: metrics_def)
  have avoided: "double_div (totalSales (metrics [])) (real (length ([] :: SaleRecord list)))
      = NotANumber"
    by (simp add: metrics_def double_div_def)
  from some finite none empty avoided show ?thesis
    by simp
qed

theorem metrics_avgTicket_witness:
  "length [example_north, example_south] > 0
   \<and> totalSales (metrics [example_north, example_south]) = 150
   \<and> avgTicket (metrics [example_north, example_south]) = Num 75
   \<and> length ([] :: SaleRecord list) = 0
   \<and> avgTicket (metrics []) = Num 0"
  using metrics_avgTicket [of "[example_north, example_south]"] metrics_avgTicket [of "[]"]
  by (simp add: metrics_def double_add_def fl_examples example_north_def example_south_def)

section \<open>Sort state of the table\<close>

text \<open>Claim C8: selecting a column that is not the active sort key (no key is active, or
  another one is) makes it the key with direction descending for sales, profit, quantity
  and date and ascending for every other column; selecting the active key keeps it and
  turns ascending into descending and descending into ascending.\<close>

theorem handleSort_policy:
  "(sortConfig = None \<or> (\<exists>sc. sortConfig = Some sc \<and> key sc \<noteq> k) \<longrightarrow>
      handleSort sortConfig k =
        Some \<lparr>key = k,
              direction = (if k \<in> {Key_sales, Key_profit, Key_quantity, Key_date}
                           then desc else asc)\<rparr>)
   \<and> (\<forall>sc. sortConfig = Some sc \<and> key sc = k \<longrightarrow>
        handleSort sortConfig k =
          Some \<lparr>key = k, direction = (case direction sc of asc \<Rightarrow> desc | desc \<Rightarrow> asc)\<rparr>)"
proof (intro conjI impI allI)
  assume "sortConfig = None \<or> (\<exists>sc. sortConfig = Some sc \<and> key sc \<noteq> k)"
  then have "map_option key sortConfig \<noteq> Some k"
    by auto
  then show "handleSort sortConfig k =
      Some \<lparr>key = k,
            direction = (if k \<in> {Key_sales, Key_profit, Key_quantity, Key_date}
                         then desc else asc)\<rparr>"
    by (simp add: handleSort_def)
next
  fix sc
  assume "sortConfig = Some sc \<and> key sc = k"
  then have active: "map_option key sortConfig = Some k"
    and dir: "map_option direction sortConfig = Some (direction sc)"
    by simp_all
  show "handleSort sortConfig k =
      Some \<lparr>key = k, direction = (case direction sc of asc \<Rightarrow> desc | desc \<Rightarrow> asc)\<rparr>"
    by (cases "direction sc") (simp_all add: handleSort_def active dir)
qed

theorem handleSort_policy_witness:
  "handleSort None Key_sales = Some \<lparr>key = Key_sales, direction = desc\<rparr>
   \<and> handleSort (Some \<lparr>key = Key_sales, direction = desc\<rparr>) Key_product
       = Some \<lparr>key = Key_product, direction = asc\<rparr>
   \<and> handleSort (Some \<lparr>key = Key_sales, direction = desc\<rparr>) Key_sales
       = Some \<lparr>key = Key_sales, direction = asc\<rparr>
   \<and> handleSort (Some \<lparr>key = Key_sales, direction = asc\<rparr>) Key_sales
       = Some \<lparr>key = Key_sales, direction = desc\<rparr>"
  using handleSort_policy [of None Key_sales]
    handleSort_policy [of "Some \<lparr>key = Key_sales, direction = desc\<rparr>" Key_product]
    handleSort_policy [of "Some \<lparr>key = Key_sales, direction = desc\<rparr>" Key_sales]
    handleSort_policy [of "Some \<lparr>key = Key_sales, direction = asc\<rparr>" Key_sales]
  by simp

section \<open>Sales by category\<close>

lemma obj_get_obj_set:
  "obj_get (obj_set acc k v) k' = (if k' = k then Some v else obj_get acc k')"
  by (induction acc k v rule: obj_set.induct) auto

lemma keys_obj_set:
  "map fst (obj_set acc k v)
   = (if k \<in> set (map fst acc) then map fst acc else map fst acc @ [k])"
  by (induction acc k v rule: obj_set.induct) force+

lemma set_obj_set: "snd ` set (obj_set acc k v) \<subseteq> insert v (snd ` set acc)"
  by (induction acc k v rule: obj_set.induct) auto

text \<open>One step of the accumulation, for a category that names no member of
  \<^verbatim>\<open>Object.prototype\<close> and an accumulator that holds numbers: the group of the category
  becomes its former value, or 0, plus the sales of the record.\<close>

lemma group_step:
  assumes "k \<notin> set Object_prototype_keys" and "snd ` set acc \<subseteq> range Num"
  shows "prop_set acc k (plus_number (or_zero_value (prop_get acc k)) s)
         = obj_set acc k (Num (double_add (case obj_get acc k of Some (Num v) \<Rightarrow> v | _ \<Rightarrow> 0) s))"
proof -
  have proto: "k \<noteq> ''__proto__''"
    using assms(1) by (auto simp: Object_prototype_keys_def)
  show ?thesis
  proof (cases "obj_get acc k")
    case None
    then show ?thesis
      using assms(1) proto by (simp add: prop_set_def prop_get_def array_includes_set)
  next
    case (Some w)
    then have "w \<in> snd ` set acc"
      by (induction acc k rule: obj_get.induct) (auto split: if_splits)
    with assms(2) obtain v where "w = Num v"
      by auto
    with Some show ?thesis
      using proto by (simp add: prop_set_def prop_get_def)
  qed
qed

lemma group_reduce:
  assumes "category ` set data \<inter> set Object_prototype_keys = {}"
    and "snd ` set acc \<subseteq> range Num"
  shows "obj_get (reduce (\<lambda>acc curr.
           prop_set acc (category curr)
             (plus_number (or_zero_value (prop_get acc (category curr))) (sales curr))) acc data) c
         = (if c \<in> category ` set data
            then Some (Num (reduce (\<lambda>sum item. double_add sum (sales item))
                         (case obj_get acc c of Some (Num v) \<Rightarrow> v | _ \<Rightarrow> 0)
                         (filter (\<lambda>r. category r = c) data)))
            else obj_get acc c)"
  using assms
proof (induction data arbitrary: acc)
  case Nil
  show ?case by simp
next
  case (Cons r data)
  define w where
    "w = double_add (case obj_get acc (category r) of Some (Num v) \<Rightarrow> v | _ \<Rightarrow> 0) (sales r)"
  define acc' where "acc' = obj_set acc (category r) (Num w)"
  have step: "prop_set acc (category r)
      (plus_number (or_zero_value (prop_get acc (category r))) (sales r)) = acc'"
    unfolding acc'_def w_def using Cons.prems by (intro group_step) auto
  have numbers: "snd ` set acc' \<subseteq> range Num"
    unfolding acc'_def using set_obj_set [of acc "category r" "Num w"] Cons.prems(2) by auto
  have rest: "category ` set data \<inter> set Object_prototype_keys = {}"
    using Cons.prems(1) by auto
  have none: "filter (\<lambda>x. category x = k) data = []" if "k \<notin> category ` set data" for k
    using that by (auto simp: filter_empty_conv)
  have get: "obj_get acc' c = (if c = category r then Some (Num w) else obj_get acc c)"
    by (simp add: acc'_def obj_get_obj_set)
  show ?case
    by (simp add: step Cons.IH [OF rest numbers] get none) (auto simp: w_def)
qed

lemma group_numbers:
  assumes "category ` set data \<inter> set Object_prototype_keys = {}"
    and "snd ` set acc \<subseteq> range Num"
  shows "snd ` set (reduce (\<lambda>acc curr.
           prop_set acc (category curr)
             (plus_number (or_zero_value (prop_get acc (category curr))) (sales curr))) acc data)
         \<subseteq> range Num"
  using assms
proof (induction data arbitrary: acc)
  case Nil
  then show ?case by simp
next
  case (Cons r data)
  define w where
    "w = double_add (case obj_get acc (category r) of Some (Num v) \<Rightarrow> v | _ \<Rightarrow> 0) (sales r)"
  have step: "prop_set acc (category r)
      (plus_number (or_zero_value (prop_get acc (category r))) (sales r))
      = obj_set acc (category r) (Num w)"
    unfolding w_def using Cons.prems by (intro group_step) auto
  have numbers: "snd ` set (obj_set acc (category r) (Num w)) \<subseteq> range Num"
    using set_obj_set [of acc "category r" "Num w"] Cons.prems(2) by auto
  have rest: "category ` set data \<inter> set Object_prototype_keys = {}"
    using Cons.prems(1) by auto
  show ?case
    by (simp add: step Cons.IH [OF rest numbers])
qed

lemma group_keys:
  assumes "category ` set data \<inter> set Object_prototype_keys = {}"
    and "snd ` set acc \<subseteq> range Num" and "distinct (map fst acc)"
  shows "distinct (map fst (reduce (\<lambda>acc curr.
           prop_set acc (category curr)
             (plus_number (or_zero_value (prop_get acc (category curr))) (sales curr))) acc data))
       \<and> set (map fst (reduce (\<lambda>acc curr.
           prop_set acc (category curr)
             (plus_number (or_zero_value (prop_get acc (category curr))) (sales curr))) acc data))
         = set (map fst acc) \<union> category ` set data"
  using assms
proof (induction data arbitrary: acc)
  case Nil
  then show ?case by simp
next
  case (Cons r data)
  define w where
    "w = double_add (case obj_get acc (category r) of Some (Num v) \<Rightarrow> v | _ \<Rightarrow> 0) (sales r)"
  define acc' where "acc' = obj_set acc (category r) (Num w)"
  have step: "prop_set acc (category r)
      (plus_number (or_zero_value (prop_get acc (category r))) (sales r)) = acc'"
    unfolding acc'_def w_def using Cons.prems by (intro group_step) auto
  have numbers: "snd ` set acc' \<subseteq> range Num"
    unfolding acc'_def using set_obj_set [of acc "category r" "Num w"] Cons.prems(2) by auto
  have rest: "category ` set data \<inter> set Object_prototype_keys = {}"
    using Cons.prems(1) by auto
  have keys: "distinct (map fst acc')" "set (map fst acc') = insert (category r) (set (map fst acc))"
    using Cons.prems(3) by (auto simp: acc'_def keys_obj_set)
  show ?case
    using Cons.IH [OF rest numbers keys(1)] keys(2) by (simp add: step)
qed

text \<open>The groups of \<open>grouped_by_category\<close>, when no category names a member of
  \<^verbatim>\<open>Object.prototype\<close>: one per category that occurs, each the sum, accumulated in the
  order of the records, of the sales of the records of its category.\<close>

lemma grouped_lookup:
  assumes "category ` set data \<inter> set Object_prototype_keys = {}"
  shows "obj_get (grouped_by_category data) c
         = (if c \<in> category ` set data
            then Some (Num (totalSales (metrics (filter (\<lambda>r. category r = c) data))))
            else None)"
  using group_reduce [OF assms, of "[]" c]
  by (simp add: grouped_by_category_def metrics_def)

lemma grouped_keys:
  assumes "category ` set data \<inter> set Object_prototype_keys = {}"
  shows "distinct (map fst (grouped_by_category data))"
    and "set (map fst (grouped_by_category data)) = category ` set data"
  using group_keys [OF assms, of "[]"] by (simp_all add: grouped_by_category_def)

lemma values_by_key:
  "distinct (map fst obj) \<Longrightarrow>
   map snd obj = map (\<lambda>k. case obj_get obj k of Some v \<Rightarrow> v | None \<Rightarrow> Undefined) (map fst obj)"
proof (induction obj)
  case Nil
  show ?case by simp
next
  case (Cons kv obj)
  obtain k v where kv: "kv = (k, v)" by (cases kv)
  have "k \<notin> fst ` set obj" "distinct (map fst obj)"
    using Cons.prems by (auto simp: kv)
  then show ?case
    using Cons.IH by (auto simp: kv)
qed

lemma grouped_values:
  assumes "category ` set data \<inter> set Object_prototype_keys = {}"
  shows "map snd (grouped_by_category data)
         = map (\<lambda>c. Num (totalSales (metrics (filter (\<lambda>r. category r = c) data))))
             (map fst (grouped_by_category data))"
proof -
  have "map snd (grouped_by_category data)
      = map (\<lambda>k. case obj_get (grouped_by_category data) k of Some v \<Rightarrow> v | None \<Rightarrow> Undefined)
          (map fst (grouped_by_category data))"
    by (rule values_by_key) (rule grouped_keys(1) [OF assms])
  also have "\<dots> = map (\<lambda>c. Num (totalSales (metrics (filter (\<lambda>r. category r = c) data))))
      (map fst (grouped_by_category data))"
  proof (rule map_cong)
    fix c
    assume "c \<in> set (map fst (grouped_by_category data))"
    then have "c \<in> category ` set data"
      using grouped_keys(2) [OF assms] by simp
    then show "(case obj_get (grouped_by_category data) c of Some v \<Rightarrow> v | None \<Rightarrow> Undefined)
        = Num (totalSales (metrics (filter (\<lambda>r. category r = c) data)))"
      by (simp add: grouped_lookup [OF assms])
  qed simp
  finally show ?thesis .
qed























text \<open>A category that names a member of \<^verbatim>\<open>Object.prototype\<close>: under \<^verbatim>\<open>constructor\<close> the
  group is a text and the chart value \<^verbatim>\<open>NaN\<close>; under \<^verbatim>\<open>__proto__\<close> no group is created and
  the chart has no entry, while \<open>totalSales\<close> counts the record.\<close>

lemma grouped_constructor:
  "grouped_by_category [example_north\<lparr>category := ''constructor''\<rparr>] = [(''constructor'', Text)]
   \<and> map value_field (categoryData example_env [example_north\<lparr>category := ''constructor''\<rparr>] PT 1)
       = [NotANumber]
   \<and> totalSales (metrics [example_north\<lparr>category := ''constructor''\<rparr>]) = 100"
proof -
  have groups: "grouped_by_category [example_north\<lparr>category := ''constructor''\<rparr>]
      = [(''constructor'', Text)]"
    by (simp add: grouped_by_category_def prop_set_def prop_get_def Object_prototype_keys_def
        example_north_def)
  have entries: "Object_entries [(''constructor'', Text)] = [(''constructor'', Text)]"
    by (simp add: Object_entries_def array_index_def digit_value_def)
  have chart: "map value_field
      (categoryData example_env [example_north\<lparr>category := ''constructor''\<rparr>] PT 1) = [NotANumber]"
    by (simp add: categoryData_def groups entries)
  have total: "totalSales (metrics [example_north\<lparr>category := ''constructor''\<rparr>]) = 100"
    by (simp add: metrics_def double_add_def fl_examples example_north_def)
  from groups chart total show ?thesis
    by (simp only: simp_thms)
qed

lemma grouped_proto:
  "grouped_by_category [example_north\<lparr>category := ''__proto__''\<rparr>] = []
   \<and> categoryData example_env [example_north\<lparr>category := ''__proto__''\<rparr>] PT 1 = []
   \<and> totalSales (metrics [example_north\<lparr>category := ''__proto__''\<rparr>]) = 100"
proof -
  have groups: "grouped_by_category [example_north\<lparr>category := ''__proto__''\<rparr>] = []"
    by (simp add: grouped_by_category_def prop_set_def)
  have chart: "categoryData example_env [example_north\<lparr>category := ''__proto__''\<rparr>] PT 1 = []"
    by (simp add: categoryData_def groups Object_entries_def)
  have total: "totalSales (metrics [example_north\<lparr>category := ''__proto__''\<rparr>]) = 100"
    by (simp add: metrics_def double_add_def fl_examples example_north_def)
  from groups chart total show ?thesis
    by (simp only: simp_thms)
qed

section \<open>Table body and CSV export\<close>

lemma join_Cons: "join sep (x # xs) = x @ concat (map (\<lambda>y. sep @ y) xs)"
  by (induction xs arbitrary: x) auto

text \<open>Claim C10: the table shows the first 100 records of the ordered set. The text of
  the export is the prefix, the header line (the column labels joined by commas) and, for
  every record of the ordered set in its order, a line feed and the line of that record:
  its formatted date, translated category, product, translated region, sales times the
  factor with two decimals, quantity, and profit times the factor with two decimals,
  joined by commas. With more than 100 records the table has exactly 100 rows, those of
  the first 100 records, and the export also has the lines of the records that are not
  displayed; with at most 100 records the displayed records are all the records, and the
  exported lines are the lines of the displayed records.\<close>

theorem table_vs_export:
  "displayedRecords sortedData = take 100 sortedData
   \<and> csvContent env lang currency factor sortedData
       = ''data:text/csv;charset=utf-8,'' @ join '','' (headers env lang)
         @ concat (map (\<lambda>row. CHR 0x0A # csvLine env lang currency factor row) sortedData)
   \<and> csvLine env lang currency factor row
       = formatDate env (date row) (locale_of currency) @ '',''
         @ getDataTranslation env (category row) lang @ '',''
         @ product row @ '',''
         @ getDataTranslation env (region row) lang @ '',''
         @ toFixed env (double_mul (sales row) factor) 2 @ '',''
         @ numberToString env (quantity row) @ '',''
         @ toFixed env (double_mul (profit row) factor) 2
   \<and> csvContent env lang currency factor sortedData
       = ''data:text/csv;charset=utf-8,'' @ join '','' (headers env lang)
         @ concat (map (\<lambda>row. CHR 0x0A # csvLine env lang currency factor row)
             (displayedRecords sortedData))
         @ concat (map (\<lambda>row. CHR 0x0A # csvLine env lang currency factor row)
             (drop 100 sortedData))
   \<and> (length sortedData > 100 \<longrightarrow>
         tbody sortedData = map DataRow (take 100 sortedData)
       \<and> length (tbody sortedData) = 100
       \<and> drop 100 sortedData \<noteq> [])
   \<and> (length sortedData \<le> 100 \<longrightarrow>
         displayedRecords sortedData = sortedData
       \<and> csvContent env lang currency factor sortedData
           = ''data:text/csv;charset=utf-8,'' @ join '','' (headers env lang)
             @ concat (map (\<lambda>row. CHR 0x0A # csvLine env lang currency factor row)
                 (displayedRecords sortedData)))"
proof -
  let ?line = "\<lambda>row. CHR 0x0A # csvLine env lang currency factor row"
  have shown: "displayedRecords sortedData = take 100 sortedData"
    by (cases sortedData) (simp_all add: displayedRecords_def tbody_def array_slice_def o_def)
  have content: "csvContent env lang currency factor sortedData
      = ''data:text/csv;charset=utf-8,'' @ join '','' (headers env lang)
        @ concat (map ?line sortedData)"
    by (simp add: csvContent_def csvRows_def csvLine_def join_Cons o_def)
  have line: "csvLine env lang currency factor row
      = formatDate env (date row) (locale_of currency) @ '',''
        @ getDataTranslation env (category row) lang @ '',''
        @ product row @ '',''
        @ getDataTranslation env (region row) lang @ '',''
        @ toFixed env (double_mul (sales row) factor) 2 @ '',''
        @ numberToString env (quantity row) @ '',''
        @ toFixed env (double_mul (profit row) factor) 2"
    by (simp add: csvLine_def csvRow_def)
  have "concat (map ?line (take 100 sortedData)) @ concat (map ?line (drop 100 sortedData))
      = concat (map ?line sortedData)"
    by (simp only: concat_append [symmetric] map_append [symmetric] append_take_drop_id)
  then have split: "csvContent env lang currency factor sortedData
      = ''data:text/csv;charset=utf-8,'' @ join '','' (headers env lang)
        @ concat (map ?line (displayedRecords sortedData))
        @ concat (map ?line (drop 100 sortedData))"
    by (simp only: content shown)
  have many: "length sortedData > 100 \<longrightarrow>
      tbody sortedData = map DataRow (take 100 sortedData)
      \<and> length (tbody sortedData) = 100 \<and> drop 100 sortedData \<noteq> []"
    by (auto simp: tbody_def array_slice_def)
  have few: "length sortedData \<le> 100 \<longrightarrow>
      displayedRecords sortedData = sortedData
      \<and> csvContent env lang currency factor sortedData
          = ''data:text/csv;charset=utf-8,'' @ join '','' (headers env lang)
            @ concat (map ?line (displayedRecords sortedData))"
    by (simp add: shown content)
  show ?thesis
    by (intro conjI) (rule shown content line split many few)+
qed

theorem table_vs_export_witness:
  "length (replicate 101 example_north) > 100
   \<and> length (tbody (replicate 101 example_north)) = 100
   \<and> displayedRecords (replicate 101 example_north) = replicate 100 example_north
   \<and> drop 100 (replicate 101 example_north) = [example_north]
   \<and> length [example_north, example_south] \<le> 100
   \<and> displayedRecords [example_north, example_south] = [example_north, example_south]
   \<and> csvLine example_env PT BRL 1 example_north
       = ''09 Mar 2024,Electronics,Product 1,North,100.00,2,30.00''
   \<and> csvLine example_env PT BRL 1 example_south
       = ''10 Mar 2024,Food,Product 2,South,50.00,1,-5.00''
   \<and> csvContent example_env PT BRL 1 [example_north, example_south]
       = ''data:text/csv;charset=utf-8,Date,Category,Product,Region,Sales,Qty,Profit''
         @ [CHR 0x0A] @ ''09 Mar 2024,Electronics,Product 1,North,100.00,2,30.00''
         @ [CHR 0x0A] @ ''10 Mar 2024,Food,Product 2,South,50.00,1,-5.00''"
proof -
  have north: "csvLine example_env PT BRL 1 example_north
      = ''09 Mar 2024,Electronics,Product 1,North,100.00,2,30.00''"
    using table_vs_export [of "[example_north, example_south]" example_env PT BRL 1 example_north]
    by (simp add: example_env_def example_north_def double_mul_def fl_examples)
  have south: "csvLine example_env PT BRL 1 example_south
      = ''10 Mar 2024,Food,Product 2,South,50.00,1,-5.00''"
    using table_vs_export [of "[example_north, example_south]" example_env PT BRL 1 example_south]
    by (simp add: example_env_def example_south_def double_mul_def fl_examples)
  have header: "join '','' (headers example_env PT) = ''Date,Category,Product,Region,Sales,Qty,Profit''"
    by (simp add: example_env_def)
  have content: "csvContent example_env PT BRL 1 [example_north, example_south]
      = ''data:text/csv;charset=utf-8,Date,Category,Product,Region,Sales,Qty,Profit''
        @ [CHR 0x0A] @ ''09 Mar 2024,Electronics,Product 1,North,100.00,2,30.00''
        @ [CHR 0x0A] @ ''10 Mar 2024,Food,Product 2,South,50.00,1,-5.00''"
    using table_vs_export [of "[example_north, example_south]" example_env PT BRL 1 example_north]
    by (simp add: north south header)
  have many: "length (tbody (replicate 101 example_north)) = 100
      \<and> displayedRecords (replicate 101 example_north) = replicate 100 example_north
      \<and> drop 100 (replicate 101 example_north) = [example_north]"
    using table_vs_export [of "replicate 101 example_north" example_env PT BRL 1 example_north]
    by simp
  have few: "displayedRecords [example_north, example_south] = [example_north, example_south]"
    using table_vs_export [of "[example_north, example_south]" example_env PT BRL 1 example_north]
    by simp
  from north south content many few show ?thesis
    by simp
qed

section \<open>Heatmap statistics\<close>

text \<open>\<open>Math_max xs z\<close> is the greatest and \<open>Math_min xs z\<close> the least of the values
  \<open>xs\<close> and \<open>z\<close>.\<close>

lemma Max_insert_Cons:
  "Max (insert z (set (x # xs))) = max x (Max (insert (z :: real) (set xs)))"
proof -
  have "Max (insert z (set (x # xs))) = Max (insert x (insert z (set xs)))"
    by (simp add: insert_commute)
  also have "\<dots> = max x (Max (insert z (set xs)))"
    by (rule Max_insert) simp_all
  finally show ?thesis .
qed

lemma Min_insert_Cons:
  "Min (insert z (set (x # xs))) = min x (Min (insert (z :: real) (set xs)))"
proof -
  have "Min (insert z (set (x # xs))) = Min (insert x (insert z (set xs)))"
    by (simp add: insert_commute)
  also have "\<dots> = min x (Min (insert z (set xs)))"
    by (rule Min_insert) simp_all
  finally show ?thesis .
qed

lemma Math_max_Cons: "Math_max (x # xs) z = max x (Math_max xs z)"
  by (simp add: Let_def max_def)

lemma Math_min_Cons: "Math_min (x # xs) z = min x (Math_min xs z)"
  by (simp add: Let_def min_def)

lemma Math_max_Max: "Math_max xs z = Max (insert z (set xs))"
proof (induction xs)
  case Nil
  show ?case by simp
next
  case (Cons x xs)
  show ?case by (simp only: Math_max_Cons Max_insert_Cons Cons.IH)
qed

lemma Math_min_Min: "Math_min xs z = Min (insert z (set xs))"
proof (induction xs)
  case Nil
  show ?case by simp
next
  case (Cons x xs)
  show ?case by (simp only: Math_min_Cons Min_insert_Cons Cons.IH)
qed

lemma Max_with_zero:
  assumes "finite S" "v \<in> S" "(0 :: real) \<le> v"
  shows "Max (insert 0 S) = Max S"
proof -
  from assms have "S \<noteq> {}" by auto
  with assms(1) have "Max (insert 0 S) = max 0 (Max S)"
    by (rule Max_insert)
  moreover from assms have "0 \<le> Max S"
    by (meson Max_ge order_trans)
  ultimately show ?thesis by simp
qed

lemma Min_with_zero:
  assumes "finite S" "v \<in> S" "v \<le> (0 :: real)"
  shows "Min (insert 0 S) = Min S"
proof -
  from assms have "S \<noteq> {}" by auto
  with assms(1) have "Min (insert 0 S) = min 0 (Min S)"
    by (rule Min_insert)
  moreover from assms have "Min S \<le> 0"
    by (meson Min_le order_trans)
  ultimately show ?thesis by simp
qed

text \<open>What \<open>minSales\<close> computes: the least of 0 and the sales values, so it is 0 on every set
  whose sales are all positive.\<close>

lemma minSales_with_zero: "minSales sortedData = Min (insert 0 (sales ` set sortedData))"
  by (simp add: minSales_def Math_min_Min)

lemma minSales_example:
  "minSales [example_north, example_south] = 0
   \<and> Min (sales ` set [example_north, example_south]) = 50"
  by (simp add: minSales_with_zero example_north_def example_south_def)

text \<open>Claim C7, amended: \<open>maxSales\<close> is the greatest of 0 and the records' sales values and
  \<open>maxProfit\<close> the greatest of 0 and the records' profit values, so each is the plain maximum
  as soon as one record has a non-negative value; \<open>minSales\<close> is the minimum of the records'
  sales values as soon as one record has sales of at most 0; on the empty set all three
  are 0.\<close>

theorem heatmap_stats:
  "maxSales sortedData = Max (insert 0 (sales ` set sortedData))
   \<and> maxProfit sortedData = Max (insert 0 (profit ` set sortedData))
   \<and> ((\<exists>r \<in> set sortedData. 0 \<le> sales r) \<longrightarrow>
        maxSales sortedData = Max (sales ` set sortedData))
   \<and> ((\<exists>r \<in> set sortedData. 0 \<le> profit r) \<longrightarrow>
        maxProfit sortedData = Max (profit ` set sortedData))
   \<and> ((\<exists>r \<in> set sortedData. sales r \<le> 0) \<longrightarrow>
        minSales sortedData = Min (sales ` set sortedData))
   \<and> maxSales [] = 0 \<and> minSales [] = 0 \<and> maxProfit [] = 0"
proof -
  have a: "maxSales sortedData = Max (insert 0 (sales ` set sortedData))"
    and b: "minSales sortedData = Min (insert 0 (sales ` set sortedData))"
    and c: "maxProfit sortedData = Max (insert 0 (profit ` set sortedData))"
    by (simp_all add: maxSales_def minSales_def maxProfit_def Math_max_Max Math_min_Min)
  have e: "maxSales sortedData = Max (sales ` set sortedData)"
    if "\<exists>r \<in> set sortedData. 0 \<le> sales r"
    using that by (auto simp: a intro: Max_with_zero)
  have f: "minSales sortedData = Min (sales ` set sortedData)"
    if "\<exists>r \<in> set sortedData. sales r \<le> 0"
    using that by (auto simp: b intro: Min_with_zero)
  have g: "maxProfit sortedData = Max (profit ` set sortedData)"
    if "\<exists>r \<in> set sortedData. 0 \<le> profit r"
    using that by (auto simp: c intro: Max_with_zero)
  have h: "maxSales [] = 0 \<and> minSales [] = 0 \<and> maxProfit [] = 0"
    by (simp add: maxSales_def minSales_def maxProfit_def)
  from a c e f g h show ?thesis
    by blast
qed

theorem heatmap_stats_witness:
  "(\<exists>r \<in> set [example_north, example_south]. 0 \<le> sales r)
   \<and> maxSales [example_north, example_south] = 100
   \<and> Max (sales ` set [example_north, example_south]) = 100
   \<and> (\<exists>r \<in> set [example_north, example_south]. 0 \<le> profit r)
   \<and> maxProfit [example_north, example_south] = 30
   \<and> Max (profit ` set [example_north, example_south]) = 30
   \<and> (\<exists>r \<in> set [example_north, example_south\<lparr>sales := 0\<rparr>]. sales r \<le> 0)
   \<and> minSales [example_north, example_south\<lparr>sales := 0\<rparr>] = 0
   \<and> Min (sales ` set [example_north, example_south\<lparr>sales := 0\<rparr>]) = 0"
  using heatmap_stats [of "[example_north, example_south]"]
    heatmap_stats [of "[example_north, example_south\<lparr>sales := 0\<rparr>]"]
  by (simp add: example_north_def example_south_def)

text \<open>A visible set that holds one record sold at a loss: the statistic is 0, the maximum of
  the profit values is negative.\<close>

theorem maxProfit_counterexample:
  "maxProfit [example_south] = 0
   \<and> Max (profit ` set [example_south]) = - 5
   \<and> maxProfit [example_south] \<noteq> Max (profit ` set [example_south])"
  by (simp add: maxProfit_def example_south_def Let_def)

section \<open>Date-range filter of the table\<close>

lemma new_Date_2024_03_10: "new_Date ''2024-03-10'' = Some 1710028800000"
  by (simp add: new_Date_def digit_value_def DaysInMonth_def MakeDay_def msPerDay_def)

lemma new_Date_midnight_UTC: "new_Date s = Some t \<Longrightarrow> t mod msPerDay = 0"
  by (auto simp: new_Date_def split: if_splits option.splits)

text \<open>In a zone at or east of UTC, \<open>setHours\<close> on midnight UTC of a day stays on that
  calendar day; in a zone west of UTC, midnight UTC is still the evening before in local
  time, and \<open>setHours\<close> lands on the day before.\<close>

lemma setHours_at_or_east_of_UTC:
  assumes "0 \<le> tz" "tz < msPerDay"
  shows "setHours tz (Some (d * msPerDay)) h m s ms
         = Time (d * msPerDay + MakeTime h m s ms - tz)"
proof -
  have "(d * msPerDay + tz) div msPerDay = d"
    using assms by (simp add: msPerDay_def)
  then show ?thesis
    by (simp add: setHours_def Let_def)
qed

lemma setHours_west_of_UTC:
  assumes "- msPerDay \<le> tz" "tz < 0"
  shows "setHours tz (Some (d * msPerDay)) h m s ms
         = Time ((d - 1) * msPerDay + MakeTime h m s ms - tz)"
proof -
  have "(d * msPerDay + tz) div msPerDay = d - 1"
    using assms by (simp add: msPerDay_def)
  then show ?thesis
    by (simp add: setHours_def Let_def)
qed

lemma filteredByDateData_no_bounds: "filteredByDateData tz data [] [] = data"
  by (simp add: filteredByDateData_def)

lemma filteredByDateData_start_only:
  assumes "startDate \<noteq> []" "setHours tz (new_Date startDate) 0 0 0 0 = Time a"
  shows "filteredByDateData tz data startDate [] = filter (\<lambda>r. a \<le> date r) data"
  using assms by (simp add: filteredByDateData_def array_filter_filter Let_def)

lemma filteredByDateData_end_only:
  assumes "endDate \<noteq> []" "setHours tz (new_Date endDate) 23 59 59 999 = Time b"
  shows "filteredByDateData tz data [] endDate = filter (\<lambda>r. date r \<le> b) data"
  using assms by (simp add: filteredByDateData_def array_filter_filter Let_def)

text \<open>At or east of UTC the filter keeps exactly the records from local 00:00:00.000 of the
  start day to local 23:59:59.999 of the end day.\<close>

lemma filteredByDateData_at_or_east_of_UTC:
  assumes "0 \<le> tz" "tz < msPerDay"
    and "new_Date startDate = Some (d1 * msPerDay)" "new_Date endDate = Some (d2 * msPerDay)"
  shows "filteredByDateData tz data startDate endDate
         = filter (\<lambda>r. d1 * msPerDay - tz \<le> date r
                        \<and> date r \<le> d2 * msPerDay + (msPerDay - 1) - tz) data"
proof -
  have "startDate \<noteq> []" "endDate \<noteq> []"
    using assms(3,4) by (auto simp: new_Date_def)
  moreover have "MakeTime 0 0 0 0 = 0" "MakeTime 23 59 59 999 = msPerDay - 1"
    by (simp_all add: MakeTime_def msPerDay_def)
  ultimately show ?thesis
    using assms
    by (simp add: filteredByDateData_def array_filter_filter Let_def setHours_at_or_east_of_UTC)
qed

text \<open>West of UTC both bounds move to the day before the selected one.\<close>

lemma filteredByDateData_west_of_UTC:
  assumes "- msPerDay \<le> tz" "tz < 0"
    and "new_Date startDate = Some (d1 * msPerDay)" "new_Date endDate = Some (d2 * msPerDay)"
  shows "filteredByDateData tz data startDate endDate
         = filter (\<lambda>r. (d1 - 1) * msPerDay - tz \<le> date r
                        \<and> date r \<le> (d2 - 1) * msPerDay + (msPerDay - 1) - tz) data"
proof -
  have "startDate \<noteq> []" "endDate \<noteq> []"
    using assms(3,4) by (auto simp: new_Date_def)
  moreover have "MakeTime 0 0 0 0 = 0" "MakeTime 23 59 59 999 = msPerDay - 1"
    by (simp_all add: MakeTime_def msPerDay_def)
  ultimately show ?thesis
    using assms
    by (simp add: filteredByDateData_def array_filter_filter Let_def setHours_west_of_UTC)
qed

lemma filteredByDateData_UTC_example:
  "filteredByDateData 0 [example_north, example_south] ''2024-03-10'' ''2024-03-10''
   = [example_south]"
  by (simp add: filteredByDateData_def new_Date_2024_03_10 setHours_def MakeTime_def
      msPerDay_def Let_def example_north_def example_south_def)

text \<open>Claim C4: the date-range filter keeps a record exactly when its timestamp lies between
  00:00:00.000 of the start day and 23:59:59.999 of the end day, bounds included. The code
  departs from this in a zone west of UTC. With local time three hours behind UTC and the
  range from 2024-03-10 to 2024-03-10, the record dated 9 March at noon local time
  (\<open>example_north\<close>) is kept and the record dated 10 March at noon local time
  (\<open>example_south\<close>) is dropped: the bounds computed are those of 9 March.\<close>

theorem filteredByDateData_three_hours_west:
  "filteredByDateData (- 10800000) [example_north, example_south] ''2024-03-10'' ''2024-03-10''
   = [example_north]"
  by (simp add: filteredByDateData_def new_Date_2024_03_10 setHours_def MakeTime_def
      msPerDay_def Let_def example_north_def example_south_def)

end
